theory Spec2Isabelle
  imports Complex_Main
begin

section \<open>Data model of the trainer\<close>

text \<open>
  The development follows \<^verbatim>\<open>recbole/trainer/trainer.py\<close>. Every Python exception the
  trainer can raise is a value of \<open>py_error\<close>; a function that may raise returns
  \<open>py_error + 'a\<close> with \<open>Inl\<close> for the exception.
\<close>

datatype py_error =
    ValueError string
  | TypeError string
  | IndexError
  | RuntimeError
  | ZeroDivisionError
  | FileNotFoundError

subsection \<open>Strings\<close>

text \<open>
  \<^verbatim>\<open>str.lower()\<close> on the ASCII letters: the learner and model names of the
  configuration are ASCII identifiers.
\<close>

definition lower_char :: "char \<Rightarrow> char" where
  "lower_char c =
     (let n = (of_char c :: nat) in if 65 \<le> n \<and> n \<le> 90 then char_of (n + 32) else c)"

definition lower :: "string \<Rightarrow> string" where
  "lower s = map lower_char s"

subsection \<open>Optimizer selection\<close>

text \<open>
  \<^verbatim>\<open>Trainer._build_optimizer\<close> (lines 104-125). An optimizer is recorded by the
  constructor that was called and the keyword arguments it was given: \<open>opt_weight_decay\<close>
  is \<open>None\<close> when the call passes no \<^verbatim>\<open>weight_decay\<close> keyword. The second
  component of the result is the list of warnings sent to the logger.
\<close>

datatype optim_kind = Adam | SGD | Adagrad | RMSprop | SparseAdam

record optimizer =
  opt_kind :: optim_kind
  opt_lr :: real
  opt_weight_decay :: "real option"

definition build_optimizer :: "string \<Rightarrow> real \<Rightarrow> real \<Rightarrow> optimizer \<times> string list" where
  "build_optimizer learner learning_rate weight_decay =
     (if lower learner = ''adam'' then
        (\<lparr>opt_kind = Adam, opt_lr = learning_rate, opt_weight_decay = Some weight_decay\<rparr>, [])
      else if lower learner = ''sgd'' then
        (\<lparr>opt_kind = SGD, opt_lr = learning_rate, opt_weight_decay = Some weight_decay\<rparr>, [])
      else if lower learner = ''adagrad'' then
        (\<lparr>opt_kind = Adagrad, opt_lr = learning_rate, opt_weight_decay = Some weight_decay\<rparr>, [])
      else if lower learner = ''rmsprop'' then
        (\<lparr>opt_kind = RMSprop, opt_lr = learning_rate, opt_weight_decay = Some weight_decay\<rparr>, [])
      else if lower learner = ''sparse_adam'' then
        (\<lparr>opt_kind = SparseAdam, opt_lr = learning_rate, opt_weight_decay = None\<rparr>,
         if weight_decay > 0
         then [''Sparse Adam cannot argument received argument [{weight_decay}]'']
         else [])
      else
        (\<lparr>opt_kind = Adam, opt_lr = learning_rate, opt_weight_decay = None\<rparr>,
         [''Received unrecognized optimizer, set default Adam optimizer'']))"

subsection \<open>Floating-point values\<close>

text \<open>
  Losses and scores are floats. The three special values are explicit, since the code
  tests for not-a-number and writes negative infinity; a finite float is idealised as a
  real number (rounding and overflow are outside the model).
\<close>

datatype fl = NaN | NInf | PInf | Fin real

fun fl_add :: "fl \<Rightarrow> fl \<Rightarrow> fl" where
  "fl_add NaN y = NaN"
| "fl_add x NaN = NaN"
| "fl_add PInf NInf = NaN"
| "fl_add NInf PInf = NaN"
| "fl_add PInf y = PInf"
| "fl_add x PInf = PInf"
| "fl_add NInf y = NInf"
| "fl_add x NInf = NInf"
| "fl_add (Fin a) (Fin b) = Fin (a + b)"

definition isnan :: "fl \<Rightarrow> bool" where
  "isnan x = (x = NaN)"

text \<open>Python's \<^verbatim>\<open>sum(xs)\<close>: it starts from 0 and adds from the left.\<close>

definition py_sum :: "fl list \<Rightarrow> fl" where
  "py_sum xs = foldl fl_add (Fin 0) xs"

subsection \<open>The tensor framework as seen by the trainer\<close>

text \<open>
  The model and the optimizer are objects of the tensor framework, mutated in place.
  \<open>torch_state\<close> holds what the trainer can observe of them: the model's state
  dictionary, the optimizer's state dictionary and the gradient buffers. The framework's
  own computations are the fields of an \<open>engine\<close>: the loss of a batch under the current
  parameters, the buffers after \<^verbatim>\<open>optimizer.zero_grad()\<close>, the buffers after
  \<^verbatim>\<open>loss.backward()\<close>, \<^verbatim>\<open>clip_grad_norm_\<close> (the field \<open>clip_grad\<close>), \<^verbatim>\<open>optimizer.step()\<close>, and the
  validation score and result that \<^verbatim>\<open>_valid_epoch\<close> gets from the evaluator.
\<close>

record ('p, 'o, 'g) torch_state =
  params :: 'p
  opt_state :: 'o
  grads :: 'g

datatype losses = Single fl | Tuple "fl list"

record ('p, 'o, 'g, 'b, 'c, 'v, 'r) engine =
  calculate_loss :: "'p \<Rightarrow> 'b \<Rightarrow> losses"
  zero_grad :: "'g \<Rightarrow> 'g"
  backward :: "'p \<Rightarrow> 'b \<Rightarrow> 'g \<Rightarrow> 'g"
  clip_grad :: "'c \<Rightarrow> 'g \<Rightarrow> 'g"
  optimizer_step :: "'p \<Rightarrow> 'o \<Rightarrow> 'g \<Rightarrow> 'p \<times> 'o"
  valid_epoch :: "'p \<Rightarrow> 'v list \<Rightarrow> real \<times> 'r"

subsection \<open>The epoch training loop\<close>

text \<open>
  \<^verbatim>\<open>Trainer._train_epoch\<close> (lines 127-175) and \<^verbatim>\<open>Trainer._check_nan\<close> (lines 235-237).
  A loss function returns one loss or a tuple of losses. \<open>combined_loss\<close> is the value
  handed to \<^verbatim>\<open>_check_nan\<close>: \<^verbatim>\<open>sum(losses)\<close> of an empty tuple is the integer 0, which
  is no tensor (\<open>None\<close> here) and makes \<^verbatim>\<open>torch.isnan\<close> raise a TypeError.
  \<open>accumulate\<close> is the update of \<^verbatim>\<open>total_loss\<close>, which starts as Python's \<^verbatim>\<open>None\<close>:
  adding a float to a tuple, or zipping a float, raises a TypeError.
\<close>

definition combined_loss :: "losses \<Rightarrow> fl option" where
  "combined_loss ls =
     (case ls of
        Single x \<Rightarrow> Some x
      | Tuple xs \<Rightarrow> if xs = [] then None else Some (py_sum xs))"

definition check_nan :: "fl option \<Rightarrow> py_error + unit" where
  "check_nan loss =
     (case loss of
        None \<Rightarrow> Inl (TypeError ''isnan(): argument input must be Tensor, not int'')
      | Some x \<Rightarrow> if isnan x then Inl (ValueError ''Training loss is nan'') else Inr ())"

definition accumulate :: "losses option \<Rightarrow> losses \<Rightarrow> py_error + losses" where
  "accumulate total_loss ls =
     (case ls of
        Tuple loss_tuple \<Rightarrow>
          (case total_loss of
             None \<Rightarrow> Inr (Tuple loss_tuple)
           | Some (Tuple tot) \<Rightarrow>
               Inr (Tuple (map (\<lambda>(a, b). py_sum [a, b]) (zip tot loss_tuple)))
           | Some (Single tot) \<Rightarrow> Inl (TypeError ''float object is not iterable''))
      | Single x \<Rightarrow>
          (case total_loss of
             None \<Rightarrow> Inr (Single x)
           | Some (Single tot) \<Rightarrow> Inr (Single (fl_add tot x))
           | Some (Tuple tot) \<Rightarrow> Inl (TypeError ''can only concatenate tuple to tuple'')))"

text \<open>
  One pass of the loop body for the batch \<open>b\<close>. The state returned with an exception is
  the state of the objects at the moment it is raised.
\<close>

definition train_batch ::
  "('p, 'o, 'g, 'b, 'c, 'v, 'r) engine \<Rightarrow> 'c option \<Rightarrow> 'b \<Rightarrow> losses option \<Rightarrow>
   ('p, 'o, 'g) torch_state \<Rightarrow> (py_error + losses) \<times> ('p, 'o, 'g) torch_state" where
  "train_batch E clip b total_loss t =
     (let t1 = t\<lparr>grads := zero_grad E (grads t)\<rparr>;
          ls = calculate_loss E (params t1) b
      in case accumulate total_loss ls of
           Inl e \<Rightarrow> (Inl e, t1)
         | Inr total' \<Rightarrow>
             (case check_nan (combined_loss ls) of
                Inl e \<Rightarrow> (Inl e, t1)
              | Inr u \<Rightarrow>
                  (let t2 = t1\<lparr>grads := backward E (params t1) b (grads t1)\<rparr>;
                       t3 = (case clip of
                               None \<Rightarrow> t2
                             | Some kw \<Rightarrow> t2\<lparr>grads := clip_grad E kw (grads t2)\<rparr>);
                       po = optimizer_step E (params t3) (opt_state t3) (grads t3)
                   in (Inr total', t3\<lparr>params := fst po, opt_state := snd po\<rparr>))))"

fun train_batches ::
  "('p, 'o, 'g, 'b, 'c, 'v, 'r) engine \<Rightarrow> 'c option \<Rightarrow> 'b list \<Rightarrow> losses option \<Rightarrow>
   ('p, 'o, 'g) torch_state \<Rightarrow> (py_error + losses option) \<times> ('p, 'o, 'g) torch_state" where
  "train_batches E clip [] total_loss t = (Inr total_loss, t)"
| "train_batches E clip (b # bs) total_loss t =
     (case train_batch E clip b total_loss t of
        (Inl e, t') \<Rightarrow> (Inl e, t')
      | (Inr total', t') \<Rightarrow> train_batches E clip bs (Some total') t')"

definition train_epoch ::
  "('p, 'o, 'g, 'b, 'c, 'v, 'r) engine \<Rightarrow> 'c option \<Rightarrow> 'b list \<Rightarrow>
   ('p, 'o, 'g) torch_state \<Rightarrow> (py_error + losses option) \<times> ('p, 'o, 'g) torch_state" where
  "train_epoch E clip train_data t = train_batches E clip train_data None t"

subsection \<open>Configuration, checkpoints and the trainer object\<close>

text \<open>
  The configuration entries the trainer reads. \<open>cfg_clip_grad_norm\<close> is the keyword
  dictionary for gradient clipping; \<open>None\<close> stands for a missing or empty one, which
  Python's truth test treats alike.
\<close>

record 'c config =
  cfg_model :: string
  cfg_learner :: string
  cfg_learning_rate :: real
  cfg_epochs :: int
  cfg_eval_step :: int
  cfg_stopping_step :: int
  cfg_clip_grad_norm :: "'c option"
  cfg_valid_metric_bigger :: bool
  cfg_checkpoint_dir :: string
  cfg_weight_decay :: real

text \<open>
  The dictionary that \<^verbatim>\<open>_save_checkpoint\<close> hands to \<^verbatim>\<open>torch.save\<close>. The checkpoint
  directory is an association list from paths to checkpoints with the latest write in
  front, so that it also keeps the history of the writes; \<^verbatim>\<open>torch.load\<close> reads the
  latest one. Serialisation itself belongs to the framework and is taken to return what
  was stored.
\<close>

record ('c, 'p, 'o) checkpoint =
  ck_config :: "'c config"
  ck_epoch :: int
  ck_cur_step :: int
  ck_best_valid_score :: real
  ck_state_dict :: 'p
  ck_optimizer :: 'o

type_synonym ('c, 'p, 'o) disk = "(string \<times> ('c, 'p, 'o) checkpoint) list"

text \<open>
  The attributes of a \<^verbatim>\<open>Trainer\<close> that the functions below read or write. Validation
  scores are real numbers. The logger, the device, the evaluator and the item tensor are
  left out.
\<close>

record ('c, 'p, 'o, 'g, 'r) trainer =
  config :: "'c config"
  learner :: string
  learning_rate :: real
  epochs :: int
  eval_step :: int
  stopping_step :: int
  clip_grad_norm :: "'c option"
  valid_metric_bigger :: bool
  saved_model_file :: string
  weight_decay :: real
  start_epoch :: int
  cur_step :: int
  best_valid_score :: real
  best_valid_result :: "'r option"
  train_loss_dict :: "int \<rightharpoonup> fl option"
  optimizer :: optimizer
  torch :: "('p, 'o, 'g) torch_state"
  item_popularity :: "int list"

text \<open>\<^verbatim>\<open>os.path.join\<close> of two components on a POSIX system.\<close>

definition path_join :: "string \<Rightarrow> string \<Rightarrow> string" where
  "path_join a b =
     (if b \<noteq> [] \<and> hd b = CHR ''/'' then b
      else if a = [] \<or> last a = CHR ''/'' then a @ b
      else a @ ''/'' @ b)"

text \<open>
  \<^verbatim>\<open>Trainer.__init__(self, config, model, item_popularity)\<close> (lines 71-102). The third
  argument is an option: \<open>None\<close> is a call that passes only \<^verbatim>\<open>config\<close> and
  \<^verbatim>\<open>model\<close>, which Python refuses with a TypeError before the body runs. \<open>model\<close> is
  the state of the model and of the optimizer built over it, \<open>local_time\<close> the text
  that \<^verbatim>\<open>get_local_time()\<close> returns.
\<close>

definition Trainer_init ::
  "'c config \<Rightarrow> ('p, 'o, 'g) torch_state \<Rightarrow> int list option \<Rightarrow> string \<Rightarrow>
   py_error + ('c, 'p, 'o, 'g, 'r) trainer" where
  "Trainer_init cfg model pop local_time =
     (case pop of
        None \<Rightarrow>
          Inl (TypeError ''__init__() missing 1 required positional argument: item_popularity'')
      | Some item_pop \<Rightarrow>
          Inr \<lparr>config = cfg,
               learner = cfg_learner cfg,
               learning_rate = cfg_learning_rate cfg,
               epochs = cfg_epochs cfg,
               eval_step = min (cfg_eval_step cfg) (cfg_epochs cfg),
               stopping_step = cfg_stopping_step cfg,
               clip_grad_norm = cfg_clip_grad_norm cfg,
               valid_metric_bigger = cfg_valid_metric_bigger cfg,
               saved_model_file =
                 path_join (cfg_checkpoint_dir cfg) (cfg_model cfg @ ''-'' @ local_time @ ''.pth''),
               weight_decay = cfg_weight_decay cfg,
               start_epoch = 0,
               cur_step = 0,
               best_valid_score = - 1,
               best_valid_result = None,
               train_loss_dict = Map.empty,
               optimizer =
                 fst (build_optimizer (cfg_learner cfg) (cfg_learning_rate cfg)
                        (cfg_weight_decay cfg)),
               torch = model,
               item_popularity = item_pop\<rparr>)"

text \<open>
  \<^verbatim>\<open>TraditionalTrainer.__init__(self, config, model)\<close> (lines 877-884): it calls
  \<^verbatim>\<open>super().__init__(config, model)\<close>, that is \<open>Trainer_init\<close> without an item
  popularity, and then sets \<^verbatim>\<open>self.epochs = 1\<close>.
\<close>

definition TraditionalTrainer_init ::
  "'c config \<Rightarrow> ('p, 'o, 'g) torch_state \<Rightarrow> string \<Rightarrow>
   py_error + ('c, 'p, 'o, 'g, 'r) trainer" where
  "TraditionalTrainer_init cfg model local_time =
     (case Trainer_init cfg model None local_time of
        Inl e \<Rightarrow> Inl e
      | Inr tr \<Rightarrow> Inr (tr\<lparr>epochs := 1\<rparr>))"

subsection \<open>Checkpointing\<close>

text \<open>
  \<^verbatim>\<open>Trainer._save_checkpoint\<close> (lines 192-207) and \<^verbatim>\<open>Trainer.resume_checkpoint\<close>
  (lines 209-233). Resuming returns the warnings it logs; when the file does not exist,
  \<^verbatim>\<open>torch.load\<close> raises before any attribute is assigned.
\<close>

definition save_checkpoint ::
  "int \<Rightarrow> ('c, 'p, 'o, 'g, 'r) trainer \<Rightarrow> ('c, 'p, 'o) disk \<Rightarrow> ('c, 'p, 'o) disk" where
  "save_checkpoint epoch tr d =
     (saved_model_file tr,
      \<lparr>ck_config = config tr,
       ck_epoch = epoch,
       ck_cur_step = cur_step tr,
       ck_best_valid_score = best_valid_score tr,
       ck_state_dict = params (torch tr),
       ck_optimizer = opt_state (torch tr)\<rparr>) # d"

definition torch_load :: "string \<Rightarrow> ('c, 'p, 'o) disk \<Rightarrow> py_error + ('c, 'p, 'o) checkpoint" where
  "torch_load file d =
     (case map_of d file of None \<Rightarrow> Inl FileNotFoundError | Some ck \<Rightarrow> Inr ck)"

definition resume_checkpoint ::
  "string \<Rightarrow> ('c, 'p, 'o, 'g, 'r) trainer \<Rightarrow> ('c, 'p, 'o) disk \<Rightarrow>
   py_error + ('c, 'p, 'o, 'g, 'r) trainer \<times> string list" where
  "resume_checkpoint resume_file tr d =
     (case torch_load resume_file d of
        Inl e \<Rightarrow> Inl e
      | Inr ck \<Rightarrow>
          Inr (tr\<lparr>start_epoch := ck_epoch ck + 1,
                  cur_step := ck_cur_step ck,
                  best_valid_score := ck_best_valid_score ck,
                  torch := (torch tr)\<lparr>params := ck_state_dict ck,
                                       opt_state := ck_optimizer ck\<rparr>\<rparr>,
               if lower (cfg_model (ck_config ck)) \<noteq> lower (cfg_model (config tr))
               then [''Architecture configuration given in config file is different from that of checkpoint. This may yield an exception while state_dict is being loaded.'']
               else []))"

subsection \<open>Early stopping\<close>

text \<open>
  Modelled from the spec: \<^verbatim>\<open>early_stopping\<close> is imported from \<^verbatim>\<open>recbole.utils\<close>,
  which is not among the source files. The definition follows section 4.2 of the
  specification: the score improves when it is greater than the best score (smaller, when
  smaller is better); on improvement the best score becomes the new score and the step
  counter 0, otherwise the counter grows by one; stopping is signalled when the counter
  has reached the patience. The result is (best score, counter, stop flag, update flag).
\<close>

definition early_stopping ::
  "real \<Rightarrow> real \<Rightarrow> int \<Rightarrow> int \<Rightarrow> bool \<Rightarrow> real \<times> int \<times> bool \<times> bool" where
  "early_stopping val best steps max_step bigger =
     (let improved = (if bigger then val > best else val < best);
          best' = (if improved then val else best);
          steps' = (if improved then 0 else steps + 1)
      in (best', steps', steps' \<ge> max_step, improved))"

subsection \<open>The fit loop\<close>

text \<open>
  \<^verbatim>\<open>Trainer.fit\<close> (lines 318-397). The state of a run is the trainer object and the
  checkpoint directory. Training data is the list of its batches; validation data is an
  option of a list of batches, and Python's \<^verbatim>\<open>not valid_data\<close> holds for \<^verbatim>\<open>None\<close>
  and for a loader of length 0. \<open>generate_train_loss_output\<close> only tells whether the
  formatting of the epoch's loss raises: \<^verbatim>\<open>'%.4f' % None\<close>, for an epoch without
  batches, is a TypeError. The text of the log lines and the optional callback are
  output only and are left out.
\<close>

definition truthy :: "'v list option \<Rightarrow> bool" where
  "truthy valid_data = (case valid_data of None \<Rightarrow> False | Some bs \<Rightarrow> bs \<noteq> [])"

definition batches_of :: "'v list option \<Rightarrow> 'v list" where
  "batches_of valid_data = (case valid_data of None \<Rightarrow> [] | Some bs \<Rightarrow> bs)"

definition epoch_loss :: "losses option \<Rightarrow> fl option" where
  "epoch_loss train_loss =
     (case train_loss of
        None \<Rightarrow> None
      | Some (Single x) \<Rightarrow> Some x
      | Some (Tuple xs) \<Rightarrow> Some (py_sum xs))"

definition generate_train_loss_output :: "losses option \<Rightarrow> py_error + unit" where
  "generate_train_loss_output train_loss =
     (case train_loss of
        None \<Rightarrow> Inl (TypeError ''must be real number, not NoneType'')
      | Some l \<Rightarrow> Inr ())"

datatype control = Continue | Break

text \<open>The body of the loop over the epochs, for the epoch \<open>epoch_idx\<close>.\<close>

definition fit_epoch ::
  "('p, 'o, 'g, 'b, 'c, 'v, 'r) engine \<Rightarrow> 'b list \<Rightarrow> 'v list option \<Rightarrow> bool \<Rightarrow> int \<Rightarrow>
   ('c, 'p, 'o, 'g, 'r) trainer \<times> ('c, 'p, 'o) disk \<Rightarrow>
   (py_error + control) \<times> ('c, 'p, 'o, 'g, 'r) trainer \<times> ('c, 'p, 'o) disk" where
  "fit_epoch E train_data valid_data saved epoch_idx s =
     (let tr = fst s; d = snd s in
      case train_epoch E (clip_grad_norm tr) train_data (torch tr) of
        (Inl e, t') \<Rightarrow> (Inl e, tr\<lparr>torch := t'\<rparr>, d)
      | (Inr train_loss, t') \<Rightarrow>
          (let tr1 = tr\<lparr>torch := t',
                        train_loss_dict := (train_loss_dict tr)(epoch_idx \<mapsto> epoch_loss train_loss)\<rparr>
           in case generate_train_loss_output train_loss of
                Inl e \<Rightarrow> (Inl e, tr1, d)
              | Inr u \<Rightarrow>
                  if eval_step tr1 \<le> 0 \<or> \<not> truthy valid_data then
                    (Inr Continue, tr1, if saved then save_checkpoint epoch_idx tr1 d else d)
                  else if (epoch_idx + 1) mod eval_step tr1 = 0 then
                    (let vr = valid_epoch E (params (torch tr1)) (batches_of valid_data);
                         es = early_stopping (fst vr) (best_valid_score tr1) (cur_step tr1)
                                (stopping_step tr1) (valid_metric_bigger tr1);
                         stop_flag = fst (snd (snd es));
                         update_flag = snd (snd (snd es));
                         tr2 = tr1\<lparr>best_valid_score := fst es, cur_step := fst (snd es)\<rparr>;
                         d2 = (if update_flag \<and> saved then save_checkpoint epoch_idx tr2 d else d);
                         tr3 = (if update_flag then tr2\<lparr>best_valid_result := Some (snd vr)\<rparr>
                                else tr2)
                     in (Inr (if stop_flag then Break else Continue), tr3, d2))
                  else (Inr Continue, tr1, d)))"

fun fit_loop ::
  "('p, 'o, 'g, 'b, 'c, 'v, 'r) engine \<Rightarrow> 'b list \<Rightarrow> 'v list option \<Rightarrow> bool \<Rightarrow> int list \<Rightarrow>
   ('c, 'p, 'o, 'g, 'r) trainer \<times> ('c, 'p, 'o) disk \<Rightarrow>
   (py_error + unit) \<times> ('c, 'p, 'o, 'g, 'r) trainer \<times> ('c, 'p, 'o) disk" where
  "fit_loop E train_data valid_data saved [] s = (Inr (), s)"
| "fit_loop E train_data valid_data saved (epoch_idx # rest) s =
     (case fit_epoch E train_data valid_data saved epoch_idx s of
        (Inl e, s') \<Rightarrow> (Inl e, s')
      | (Inr Break, s') \<Rightarrow> (Inr (), s')
      | (Inr Continue, s') \<Rightarrow> fit_loop E train_data valid_data saved rest s')"


subsection \<open>Tensor indexing\<close>

text \<open>
  A score matrix is a list of rows. Index tensors are one-dimensional lists of integers;
  an index may be negative and then counts from the end, and an index outside the
  dimension raises IndexError. Two index tensors are paired position by position, a
  tensor of length 1 being repeated against a longer one (broadcasting); other length
  mismatches raise. \<open>cells\<close> resolves a pair of index tensors to the matrix cells they
  name, all of them or none.
\<close>

type_synonym matrix = "fl list list"

definition norm_index :: "nat \<Rightarrow> int \<Rightarrow> nat option" where
  "norm_index n i =
     (if 0 \<le> i \<and> i < int n then Some (nat i)
      else if - int n \<le> i \<and> i < 0 then Some (nat (i + int n))
      else None)"

definition broadcast :: "'a list \<Rightarrow> 'b list \<Rightarrow> py_error + ('a \<times> 'b) list" where
  "broadcast xs ys =
     (if length xs = length ys then Inr (zip xs ys)
      else if length xs = 1 then Inr (map (\<lambda>y. (hd xs, y)) ys)
      else if length ys = 1 then Inr (map (\<lambda>x. (x, hd ys)) xs)
      else Inl IndexError)"

fun resolve_all :: "nat \<Rightarrow> nat \<Rightarrow> (int \<times> int) list \<Rightarrow> (nat \<times> nat) list option" where
  "resolve_all nrows ncols [] = Some []"
| "resolve_all nrows ncols (rc # rcs) =
     (case norm_index nrows (fst rc) of
        None \<Rightarrow> None
      | Some r \<Rightarrow>
          (case norm_index ncols (snd rc) of
             None \<Rightarrow> None
           | Some c \<Rightarrow>
               (case resolve_all nrows ncols rcs of
                  None \<Rightarrow> None
                | Some ps \<Rightarrow> Some ((r, c) # ps))))"

definition cells :: "nat \<Rightarrow> nat \<Rightarrow> int list \<Rightarrow> int list \<Rightarrow> py_error + (nat \<times> nat) list" where
  "cells nrows ncols rows cols =
     (case broadcast rows cols of
        Inl e \<Rightarrow> Inl e
      | Inr ix \<Rightarrow>
          (case resolve_all nrows ncols ix of None \<Rightarrow> Inl IndexError | Some ps \<Rightarrow> Inr ps))"

definition put :: "matrix \<Rightarrow> nat \<times> nat \<Rightarrow> fl \<Rightarrow> matrix" where
  "put m p v = m[fst p := (m ! fst p)[snd p := v]]"

text \<open>
  \<^verbatim>\<open>m[rows, cols]\<close> reads the named cells into a new tensor. \<^verbatim>\<open>m[rows, cols] = vals\<close>
  writes them in place, one cell after the other (when a cell is named twice the later
  write stands; the framework leaves that case open); a single value is repeated for
  every cell.
\<close>

definition index_get :: "nat \<Rightarrow> matrix \<Rightarrow> int list \<Rightarrow> int list \<Rightarrow> py_error + fl list" where
  "index_get ncols m rows cols =
     (case cells (length m) ncols rows cols of
        Inl e \<Rightarrow> Inl e
      | Inr ps \<Rightarrow> Inr (map (\<lambda>p. m ! fst p ! snd p) ps))"

definition index_put :: "nat \<Rightarrow> matrix \<Rightarrow> int list \<Rightarrow> int list \<Rightarrow> fl list \<Rightarrow> py_error + matrix" where
  "index_put ncols m rows cols vals =
     (case cells (length m) ncols rows cols of
        Inl e \<Rightarrow> Inl e
      | Inr ps \<Rightarrow>
          if length vals = length ps then Inr (foldl (\<lambda>a pv. put a (fst pv) (snd pv)) m (zip ps vals))
          else if length vals = 1 then Inr (foldl (\<lambda>a p. put a p (hd vals)) m ps)
          else Inl RuntimeError)"

subsection \<open>Full-ranking evaluation of a batch\<close>

text \<open>
  \<^verbatim>\<open>scores.view(-1, self.tot_item_num)\<close> cuts the flat prediction into rows of
  \<open>tot_item_num\<close> scores and raises when that is impossible.
\<close>

definition view_rows :: "nat \<Rightarrow> fl list \<Rightarrow> py_error + matrix" where
  "view_rows n xs =
     (if 0 < n \<and> length xs mod n = 0
      then Inr (map (\<lambda>r. take n (drop (r * n) xs)) [0..<length xs div n])
      else Inl RuntimeError)"

text \<open>
  The masking step, lines 419-424 of \<^verbatim>\<open>_full_sort_batch_eval\<close> and the whole of
  \<^verbatim>\<open>_full_sort_batch_eval_pop\<close> after the prediction: column 0 of every row and the
  cells of the history index are set to negative infinity. \<open>pred\<close> is the flat tensor
  of scores that the model returns for the batch. The history index is the pair of a row
  index tensor and a column index tensor, or \<^verbatim>\<open>None\<close>.
\<close>

definition mask_scores :: "nat \<Rightarrow> fl list \<Rightarrow> (int list \<times> int list) option \<Rightarrow> py_error + matrix" where
  "mask_scores tot_item_num pred history_index =
     (case view_rows tot_item_num pred of
        Inl e \<Rightarrow> Inl e
      | Inr scores \<Rightarrow>
          (let scores1 = map (\<lambda>row. row[0 := NInf]) scores
           in case history_index of
                None \<Rightarrow> Inr scores1
              | Some h \<Rightarrow> index_put tot_item_num scores1 (fst h) (snd h) [NInf]))"

text \<open>The cells that the history index names in a matrix of the given shape.\<close>

definition history_cells ::
  "nat \<Rightarrow> nat \<Rightarrow> (int list \<times> int list) option \<Rightarrow> py_error + (nat \<times> nat) list" where
  "history_cells nrows ncols history_index =
     (case history_index of
        None \<Rightarrow> Inr []
      | Some h \<Rightarrow> cells nrows ncols (fst h) (snd h))"

text \<open>
  The batch that the full-ranking data loader yields. The two swap corrections of lines
  426-437 read and write tensors through names: \<^verbatim>\<open>tmp_scores = scores\<close> binds a
  second name to the same tensor and copies nothing. The store maps references to
  tensors, so that the sharing is explicit: \<open>swap_assign\<close> gathers the source cells from
  the tensor behind \<open>src\<close> as it is at that moment and then writes the tensor behind
  \<open>dst\<close>.
\<close>

record 'i batched_data =
  interaction :: 'i
  history_index :: "(int list \<times> int list) option"
  swap_row1 :: "int list"
  swap_col_after1 :: "int list"
  swap_col_before1 :: "int list"
  swap_row2 :: "int list"
  swap_col_after2 :: "int list"
  swap_col_before2 :: "int list"

type_synonym ref = nat

type_synonym store = "ref \<Rightarrow> matrix"

definition swap_assign ::
  "nat \<Rightarrow> store \<Rightarrow> ref \<Rightarrow> ref \<Rightarrow> int list \<Rightarrow> int list \<Rightarrow> int list \<Rightarrow> py_error + store" where
  "swap_assign ncols h dst src rows col_after col_before =
     (case index_get ncols (h src) rows col_before of
        Inl e \<Rightarrow> Inl e
      | Inr vals \<Rightarrow>
          (case index_put ncols (h dst) rows col_after vals of
             Inl e \<Rightarrow> Inl e
           | Inr m \<Rightarrow> Inr (h(dst := m))))"

definition full_sort_batch_eval ::
  "('i \<Rightarrow> fl list) \<Rightarrow> nat \<Rightarrow> 'i batched_data \<Rightarrow> py_error + 'i \<times> matrix" where
  "full_sort_batch_eval full_sort_predict tot_item_num bd =
     (case mask_scores tot_item_num (full_sort_predict (interaction bd)) (history_index bd) of
        Inl e \<Rightarrow> Inl e
      | Inr masked \<Rightarrow>
          (let scores = (0 :: ref);
               h0 = (\<lambda>r. []) (scores := masked);
               tmp_scores = scores
           in case swap_assign tot_item_num h0 scores tmp_scores
                     (swap_row1 bd) (swap_col_after1 bd) (swap_col_before1 bd) of
                Inl e \<Rightarrow> Inl e
              | Inr h1 \<Rightarrow>
                  (case swap_assign tot_item_num h1 scores tmp_scores
                          (swap_row2 bd) (swap_col_after2 bd) (swap_col_before2 bd) of
                     Inl e \<Rightarrow> Inl e
                   | Inr h2 \<Rightarrow> Inr (interaction bd, h2 scores))))"

definition full_sort_batch_eval_pop ::
  "('i \<Rightarrow> fl list) \<Rightarrow> nat \<Rightarrow> 'i batched_data \<Rightarrow> py_error + 'i \<times> matrix" where
  "full_sort_batch_eval_pop full_sort_predict tot_item_num bd =
     (case mask_scores tot_item_num (full_sort_predict (interaction bd)) (history_index bd) of
        Inl e \<Rightarrow> Inl e
      | Inr scores \<Rightarrow> Inr (interaction bd, scores))"

subsection \<open>Python lists\<close>

text \<open>
  \<^verbatim>\<open>xs[i]\<close> on a Python list: a negative index counts from the end, an index outside
  the list raises IndexError. \<open>collect\<close> runs a list of computations in order and stops
  at the first exception.
\<close>

definition py_get :: "'a list \<Rightarrow> int \<Rightarrow> py_error + 'a" where
  "py_get xs i =
     (case norm_index (length xs) i of None \<Rightarrow> Inl IndexError | Some j \<Rightarrow> Inr (xs ! j))"

fun collect :: "(py_error + 'a) list \<Rightarrow> py_error + 'a list" where
  "collect [] = Inr []"
| "collect (x # xs) =
     (case x of
        Inl e \<Rightarrow> Inl e
      | Inr v \<Rightarrow> (case collect xs of Inl e \<Rightarrow> Inl e | Inr vs \<Rightarrow> Inr (v # vs)))"

subsection \<open>Popularity-stratified evaluation\<close>

text \<open>
  \<^verbatim>\<open>Trainer.get_threshes\<close> (lines 684-692) computes the cut index
  \<^verbatim>\<open>int(i * (len(item_p) / n_class))\<close> in double precision: the quotient of the two
  integers is rounded to the nearest double, the product of \<open>i\<close> with it is rounded
  again, and \<^verbatim>\<open>int\<close> drops the fraction. A non-negative double is the pair \<open>(m, k)\<close>
  of a mantissa and an exponent and stands for \<open>m * 2 ^ k\<close>. \<open>round_quot p q\<close> is the
  double nearest to \<open>p / q\<close>, with 53 significant bits and ties going to the even
  mantissa; the exponent is not bounded, since the quotients of list lengths are far from
  overflow and underflow.
\<close>

function bit_length :: "int \<Rightarrow> nat" where
  "bit_length n = (if n \<le> 0 then 0 else Suc (bit_length (n div 2)))"
  by pat_completeness auto
termination
  by (relation "measure nat") auto

declare bit_length.simps [simp del]

definition round_half_even :: "int \<Rightarrow> int \<Rightarrow> int" where
  "round_half_even num den =
     (let f = num div den; r = num mod den
      in if 2 * r < den then f
         else if den < 2 * r then f + 1
         else if even f then f else f + 1)"

text \<open>For positive \<open>p\<close> and \<open>q\<close>, the exponent \<open>e\<close> with \<open>2 ^ e \<le> p / q < 2 ^ (e + 1)\<close>.\<close>

definition floor_log2_quot :: "int \<Rightarrow> int \<Rightarrow> int" where
  "floor_log2_quot p q =
     (let d = int (bit_length p) - int (bit_length q)
      in if (0 \<le> d \<and> q * 2 ^ nat d \<le> p) \<or> (d < 0 \<and> q \<le> p * 2 ^ nat (- d)) then d
         else d - 1)"

type_synonym double = "int \<times> int"

definition round_quot :: "int \<Rightarrow> int \<Rightarrow> double" where
  "round_quot p q =
     (if p = 0 then (0, 0)
      else (let k = floor_log2_quot p q - 52
            in (if 0 \<le> k then round_half_even p (q * 2 ^ nat k)
                else round_half_even (p * 2 ^ nat (- k)) q,
                k)))"

definition double_mult :: "double \<Rightarrow> double \<Rightarrow> double" where
  "double_mult a b =
     (let m = fst a * fst b; k = snd a + snd b
      in if 0 \<le> k then round_quot (m * 2 ^ nat k) 1 else round_quot m (2 ^ nat (- k)))"

definition double_trunc :: "double \<Rightarrow> int" where
  "double_trunc a =
     (if 0 \<le> snd a then fst a * 2 ^ nat (snd a) else fst a div 2 ^ nat (- snd a))"

text \<open>
  The cut index for the positive integers \<open>i\<close> and \<open>n_class\<close> and the length \<open>len\<close> of
  the table.
\<close>

definition cut_index :: "int \<Rightarrow> int \<Rightarrow> int \<Rightarrow> int" where
  "cut_index i len n_class = double_trunc (double_mult (round_quot i 1) (round_quot len n_class))"









subsection \<open>Exporting the recommendation lists\<close>

text \<open>
  \<^verbatim>\<open>torch.topk(scores, k, dim=-1)\<close>: for each row the indices of the \<open>k\<close> largest
  scores, largest first; it raises when the row is shorter than \<open>k\<close>. Not-a-number ranks
  above every number. Among equal scores the smaller index comes first here (the framework
  does not fix their order).
\<close>

fun fl_ge :: "fl \<Rightarrow> fl \<Rightarrow> bool" where
  "fl_ge a NInf = True"
| "fl_ge NaN b = True"
| "fl_ge a NaN = False"
| "fl_ge PInf b = True"
| "fl_ge a PInf = False"
| "fl_ge (Fin x) (Fin y) = (y \<le> x)"
| "fl_ge NInf (Fin y) = False"

fun insert_desc :: "nat \<times> fl \<Rightarrow> (nat \<times> fl) list \<Rightarrow> (nat \<times> fl) list" where
  "insert_desc x [] = [x]"
| "insert_desc x (y # ys) =
     (if fl_ge (snd x) (snd y) then x # y # ys else y # insert_desc x ys)"

definition argsort_desc :: "fl list \<Rightarrow> nat list" where
  "argsort_desc row = map fst (foldr insert_desc (zip [0..<length row] row) [])"

definition topk :: "nat \<Rightarrow> fl list \<Rightarrow> py_error + nat list" where
  "topk k row = (if k \<le> length row then Inr (take k (argsort_desc row)) else Inl RuntimeError)"

text \<open>\<^verbatim>\<open>str(n)\<close> for a natural number, and \<^verbatim>\<open>max(xs)\<close> for a list of them.\<close>

function str_nat :: "nat \<Rightarrow> string" where
  "str_nat n =
     (if n < 10 then [char_of (48 + n)]
      else str_nat (n div 10) @ [char_of (48 + n mod 10)])"
  by pat_completeness auto
termination
  by (relation "measure id") auto

declare str_nat.simps [simp del]

definition py_max :: "nat list \<Rightarrow> py_error + nat" where
  "py_max xs =
     (if xs = [] then Inl (ValueError ''max() arg is an empty sequence'')
      else Inr (foldr max xs 0))"

text \<open>
  \<^verbatim>\<open>Trainer.write_rec_list\<close> (lines 586-599). \<open>user_mp\<close> and \<open>item_mp\<close> are lists of
  the printed user and item tokens. \<open>write_items\<close> is the inner loop over the top-K
  items of one user, \<open>write_users\<close> the loop over the rows of one batch; both return
  the text they write. The file is an option of its text, \<open>None\<close> for a file that the
  call has not opened: for every batch the file is opened with mode \<^verbatim>\<open>'w'\<close>, which
  empties it, and then holds the lines of that batch.
\<close>

fun write_items :: "string list \<Rightarrow> string \<Rightarrow> nat list \<Rightarrow> nat \<Rightarrow> py_error + string" where
  "write_items item_mp user [] p = Inr []"
| "write_items item_mp user (i # rest) p =
     (case py_get item_mp (int i - 1) of
        Inl e \<Rightarrow> Inl e
      | Inr item \<Rightarrow>
          (case write_items item_mp user rest (Suc p) of
             Inl e \<Rightarrow> Inl e
           | Inr others \<Rightarrow>
               Inr (user @ [CHR 0x09] @ item @ [CHR 0x09] @ str_nat (p + 1) @ [CHR 0x0A] @ others)))"

fun write_users :: "string list \<Rightarrow> string list \<Rightarrow> nat list list \<Rightarrow> nat \<Rightarrow> py_error + string" where
  "write_users user_mp item_mp [] u = Inr []"
| "write_users user_mp item_mp (row # rows) u =
     (case py_get user_mp (int u) of
        Inl e \<Rightarrow> Inl e
      | Inr user \<Rightarrow>
          (case write_items item_mp user row 0 of
             Inl e \<Rightarrow> Inl e
           | Inr written \<Rightarrow>
               (case write_users user_mp item_mp rows (Suc u) of
                  Inl e \<Rightarrow> Inl e
                | Inr others \<Rightarrow> Inr (written @ others))))"

fun write_batches ::
  "('i \<Rightarrow> fl list) \<Rightarrow> nat \<Rightarrow> nat list \<Rightarrow> string list \<Rightarrow> string list \<Rightarrow>
   'i batched_data list \<Rightarrow> string option \<Rightarrow> py_error + string option" where
  "write_batches predict n topk_cfg user_mp item_mp [] file = Inr file"
| "write_batches predict n topk_cfg user_mp item_mp (bd # bds) file =
     (case full_sort_batch_eval_pop predict n bd of
        Inl e \<Rightarrow> Inl e
      | Inr res \<Rightarrow>
          (case py_max topk_cfg of
             Inl e \<Rightarrow> Inl e
           | Inr k \<Rightarrow>
               (case collect (map (topk k) (snd res)) of
                  Inl e \<Rightarrow> Inl e
                | Inr topk_idx \<Rightarrow>
                    (case write_users user_mp item_mp topk_idx 0 of
                       Inl e \<Rightarrow> Inl e
                     | Inr written \<Rightarrow>
                         write_batches predict n topk_cfg user_mp item_mp bds (Some written)))))"

definition write_rec_list ::
  "('i \<Rightarrow> fl list) \<Rightarrow> nat \<Rightarrow> nat list \<Rightarrow> string list \<Rightarrow> string list \<Rightarrow>
   'i batched_data list \<Rightarrow> py_error + string option" where
  "write_rec_list predict n topk_cfg user_mp item_mp eval_data =
     write_batches predict n topk_cfg user_mp item_mp eval_data None"

subsection \<open>Example inputs\<close>

text \<open>
  A small engine for concrete runs: parameters and gradients are single numbers, a batch
  is a number, and the loss of batch 0 is not-a-number.
\<close>

definition toy_engine :: "(real, nat, real, nat, unit, unit, unit) engine" where
  "toy_engine =
     \<lparr>calculate_loss = (\<lambda>p b. if b = 0 then Single NaN else Single (Fin p)),
      zero_grad = (\<lambda>g. 0),
      backward = (\<lambda>p b g. g + 1),
      clip_grad = (\<lambda>c g. g),
      optimizer_step = (\<lambda>p k g. (p - g, Suc k)),
      valid_epoch = (\<lambda>p v. (p, ()))\<rparr>"

text \<open>
  A configuration and the trainer that \<open>Trainer_init\<close> builds from it, for concrete runs
  with \<open>toy_engine\<close>.
\<close>

definition toy_config :: "unit config" where
  "toy_config =
     \<lparr>cfg_model = ''BPR'', cfg_learner = ''adam'', cfg_learning_rate = 1 / 1000,
      cfg_epochs = 10, cfg_eval_step = 1, cfg_stopping_step = 2, cfg_clip_grad_norm = None,
      cfg_valid_metric_bigger = True, cfg_checkpoint_dir = ''saved'', cfg_weight_decay = 0\<rparr>"

definition toy_trainer :: "(unit, real, nat, real, unit) trainer" where
  "toy_trainer =
     projr (Trainer_init toy_config \<lparr>params = 5, opt_state = 0, grads = 0\<rparr> (Some [3, 1, 2]) ''now'')"

text \<open>
  Two evaluation batches of one user each, over three items (item 0 is the sentinel):
  the model scores the items 5 and 3 for the first user and 1 and 4 for the second.
\<close>

definition toy_scores :: "nat \<Rightarrow> fl list" where
  "toy_scores i = (if i = 1 then [Fin 0, Fin 5, Fin 3] else [Fin 0, Fin 1, Fin 4])"

definition toy_batch :: "nat \<Rightarrow> nat batched_data" where
  "toy_batch i =
     \<lparr>interaction = i, history_index = None,
      swap_row1 = [], swap_col_after1 = [], swap_col_before1 = [],
      swap_row2 = [], swap_col_after2 = [], swap_col_before2 = []\<rparr>"

section \<open>Theorems\<close>

subsection \<open>Optimizer fallback\<close>

text \<open>
  Claim C10. For a learner name that is, after lowercasing, none of adam, sgd, adagrad,
  rmsprop and sparse_adam, \<open>build_optimizer\<close> returns an Adam optimizer with the
  configured learning rate and without a weight-decay argument, whatever the configured
  weight decay is, together with exactly one warning. The function has no error result.
\<close>

theorem build_optimizer_fallback:
  assumes "lower name \<notin> {''adam'', ''sgd'', ''adagrad'', ''rmsprop'', ''sparse_adam''}"
  shows "build_optimizer name lr wd =
           (\<lparr>opt_kind = Adam, opt_lr = lr, opt_weight_decay = None\<rparr>,
            [''Received unrecognized optimizer, set default Adam optimizer''])"
  using assms by (simp add: build_optimizer_def)

theorem build_optimizer_fallback_witness:
  "lower ''AdamW'' \<notin> {''adam'', ''sgd'', ''adagrad'', ''rmsprop'', ''sparse_adam''} \<and>
   build_optimizer ''AdamW'' (1 / 1000) (1 / 10) =
     (\<lparr>opt_kind = Adam, opt_lr = 1 / 1000, opt_weight_decay = None\<rparr>,
      [''Received unrecognized optimizer, set default Adam optimizer''])"
proof -
  have h: "lower ''AdamW'' \<notin> {''adam'', ''sgd'', ''adagrad'', ''rmsprop'', ''sparse_adam''}"
    by (simp add: lower_def lower_char_def)
  show ?thesis
    using h build_optimizer_fallback [OF h, of "1 / 1000" "1 / 10"] by simp
qed

subsection \<open>The epoch loop stops at a not-a-number loss\<close>

lemma train_batches_append:
  "train_batches E clip (xs @ ys) tot t =
     (case train_batches E clip xs tot t of
        (Inl e, t') \<Rightarrow> (Inl e, t')
      | (Inr tot', t') \<Rightarrow> train_batches E clip ys tot' t')"
  by (induction xs arbitrary: tot t) (auto split: prod.splits sum.splits)

lemma train_batch_nan:
  assumes "combined_loss (calculate_loss E (params t) b) = Some NaN"
  shows "train_batch E clip b tot t =
           (Inl (case accumulate tot (calculate_loss E (params t) b) of
                   Inl e \<Rightarrow> e
                 | Inr x \<Rightarrow> ValueError ''Training loss is nan''),
            t\<lparr>grads := zero_grad E (grads t)\<rparr>)"
  using assms by (simp add: train_batch_def check_nan_def isnan_def split: sum.splits)

text \<open>
  Claim C3. Let the batches \<open>pre\<close> be trained without an exception, leaving the state
  \<open>t1\<close>, and let the combined loss of the next batch \<open>b\<close> under the parameters of \<open>t1\<close>
  be not-a-number. Then the epoch over \<open>pre @ b # post\<close> raises at \<open>b\<close>, whatever
  follows: the exception is the ValueError of \<open>check_nan\<close> (or the TypeError of the
  total-loss update, which comes first, when the loss changes between a tuple and a single
  value), and the state left behind is \<open>t1\<close> with the gradient buffers zeroed. Neither
  \<open>backward\<close> nor \<open>optimizer_step\<close> is applied for \<open>b\<close>: the parameters and the
  optimizer state are those of \<open>t1\<close>.
\<close>

theorem train_epoch_nan_abort:
  assumes pre: "train_epoch E clip pre t = (Inr tot1, t1)"
      and nan: "combined_loss (calculate_loss E (params t1) b) = Some NaN"
  shows "train_epoch E clip (pre @ b # post) t =
           (Inl (case accumulate tot1 (calculate_loss E (params t1) b) of
                   Inl e \<Rightarrow> e
                 | Inr x \<Rightarrow> ValueError ''Training loss is nan''),
            t1\<lparr>grads := zero_grad E (grads t1)\<rparr>)"
  using pre train_batch_nan [OF nan, of clip tot1]
  by (simp add: train_epoch_def train_batches_append)

theorem train_epoch_nan_abort_witness:
  "train_epoch toy_engine None [1] \<lparr>params = 5, opt_state = 0, grads = 7\<rparr> =
     (Inr (Some (Single (Fin 5))), \<lparr>params = 4, opt_state = 1, grads = 1\<rparr>) \<and>
   combined_loss (calculate_loss toy_engine 4 0) = Some NaN \<and>
   train_epoch toy_engine None ([1] @ 0 # [1]) \<lparr>params = 5, opt_state = 0, grads = 7\<rparr> =
     (Inl (ValueError ''Training loss is nan''), \<lparr>params = 4, opt_state = 1, grads = 0\<rparr>)"
proof -
  let ?t = "\<lparr>params = 5 :: real, opt_state = 0 :: nat, grads = 7 :: real\<rparr>"
  let ?t1 = "\<lparr>params = 4 :: real, opt_state = 1 :: nat, grads = 1 :: real\<rparr>"
  have pre: "train_epoch toy_engine None [1] ?t = (Inr (Some (Single (Fin 5))), ?t1)"
    by (simp add: train_epoch_def train_batch_def toy_engine_def accumulate_def
        check_nan_def combined_loss_def isnan_def)
  have nan: "combined_loss (calculate_loss toy_engine (params ?t1) 0) = Some NaN"
    by (simp add: toy_engine_def combined_loss_def)
  show ?thesis
    using pre nan train_epoch_nan_abort [OF pre nan, of "[1]"]
    by (simp add: toy_engine_def accumulate_def)
qed

subsection \<open>The example trainer\<close>

lemma toy_trainer_fields:
  "config toy_trainer = toy_config"
  "epochs toy_trainer = 10"
  "eval_step toy_trainer = 1"
  "stopping_step toy_trainer = 2"
  "clip_grad_norm toy_trainer = None"
  "valid_metric_bigger toy_trainer = True"
  "saved_model_file toy_trainer = ''saved/BPR-now.pth''"
  "start_epoch toy_trainer = 0"
  "cur_step toy_trainer = 0"
  "best_valid_score toy_trainer = - 1"
  "best_valid_result toy_trainer = None"
  "train_loss_dict toy_trainer = Map.empty"
  "torch toy_trainer = \<lparr>params = 5, opt_state = 0, grads = 0\<rparr>"
  "item_popularity toy_trainer = [3, 1, 2]"
  by (simp_all add: toy_trainer_def Trainer_init_def toy_config_def path_join_def)

subsection \<open>Early stopping inside the fit loop\<close>

lemma fit_epoch_bigger:
  "valid_metric_bigger (fst (snd (fit_epoch E td vd saved e (tr, d)))) = valid_metric_bigger tr"
  by (simp add: fit_epoch_def Let_def split: prod.splits sum.splits)

lemma fit_epoch_best_mono:
  "(if valid_metric_bigger tr
    then best_valid_score tr \<le> best_valid_score (fst (snd (fit_epoch E td vd saved e (tr, d))))
    else best_valid_score (fst (snd (fit_epoch E td vd saved e (tr, d)))) \<le> best_valid_score tr)"
  by (simp add: fit_epoch_def Let_def early_stopping_def split: prod.splits sum.splits)

lemma fit_loop_best_mono:
  "(if valid_metric_bigger (fst s)
    then best_valid_score (fst s) \<le> best_valid_score (fst (snd (fit_loop E td vd saved es s)))
    else best_valid_score (fst (snd (fit_loop E td vd saved es s))) \<le> best_valid_score (fst s))"
proof (induction es arbitrary: s)
  case Nil
  then show ?case by simp
next
  case (Cons e es)
  obtain tr d where s: "s = (tr, d)" by (cases s)
  obtain r s' where step: "fit_epoch E td vd saved e (tr, d) = (r, s')"
    by (cases "fit_epoch E td vd saved e (tr, d)")
  have big: "valid_metric_bigger (fst s') = valid_metric_bigger tr"
    using fit_epoch_bigger [of E td vd saved e tr d] step by simp
  have one: "if valid_metric_bigger tr then best_valid_score tr \<le> best_valid_score (fst s')
             else best_valid_score (fst s') \<le> best_valid_score tr"
    using fit_epoch_best_mono [of tr E td vd saved e d] step by (simp split: if_splits)
  show ?case
  proof (cases r)
    case (Inl err)
    then show ?thesis using s step one by (simp split: if_splits)
  next
    case (Inr c)
    show ?thesis
    proof (cases c)
      case Break
      then show ?thesis using s step one Inr by (simp split: if_splits)
    next
      case Continue
      have "fit_loop E td vd saved (e # es) s = fit_loop E td vd saved es s'"
        using s step Inr Continue by simp
      then show ?thesis
        using Cons.IH [of s'] one big s by (auto split: if_splits)
    qed
  qed
qed

lemma fit_epoch_eval:
  assumes train: "train_epoch E (clip_grad_norm tr) td (torch tr) = (Inr (Some l), t')"
      and ev: "0 < eval_step tr" "truthy vd" "(e + 1) mod eval_step tr = 0"
  shows "\<exists>tr' d'.
           fit_epoch E td vd saved e (tr, d) =
             (Inr (if stopping_step tr \<le> cur_step tr' then Break else Continue), tr', d') \<and>
           cur_step tr' =
             (if (if valid_metric_bigger tr
                  then best_valid_score tr < fst (valid_epoch E (params t') (batches_of vd))
                  else fst (valid_epoch E (params t') (batches_of vd)) < best_valid_score tr)
              then 0 else cur_step tr + 1) \<and>
           best_valid_score tr' =
             (if (if valid_metric_bigger tr
                  then best_valid_score tr < fst (valid_epoch E (params t') (batches_of vd))
                  else fst (valid_epoch E (params t') (batches_of vd)) < best_valid_score tr)
              then fst (valid_epoch E (params t') (batches_of vd)) else best_valid_score tr)"
  using assms
  by (simp add: fit_epoch_def Let_def early_stopping_def generate_train_loss_output_def)

text \<open>
  Claim C2. Take an epoch \<open>e\<close> of the fit loop at which the model is evaluated: training
  returns a loss, validation data is supplied, and \<open>e + 1\<close> is a multiple of the positive
  \<open>eval_step\<close>. Then \<open>cur_step\<close> becomes 0 when the validation score improves on
  \<open>best_valid_score\<close> (greater when bigger is better, smaller otherwise) and grows by one
  when it does not; \<open>best_valid_score\<close> becomes the new score exactly on improvement; and
  the loop returns at once, without running the remaining epochs, when the new \<open>cur_step\<close>
  has reached \<open>stopping_step\<close>, and goes on with them otherwise. Moreover, over any list
  of epochs and from any state, also when the run ends with an exception, the final
  \<open>best_valid_score\<close> is not worse than the initial one: not smaller when bigger is
  better, not greater otherwise.
\<close>

theorem fit_early_stopping:
  assumes train: "train_epoch E (clip_grad_norm tr) td (torch tr) = (Inr (Some l), t')"
      and ev: "0 < eval_step tr" "truthy vd" "(e + 1) mod eval_step tr = 0"
  shows "(\<exists>tr' d'.
            fit_loop E td vd saved (e # rest) (tr, d) =
              (if stopping_step tr \<le> cur_step tr' then (Inr (), tr', d')
               else fit_loop E td vd saved rest (tr', d')) \<and>
            cur_step tr' =
              (if (if valid_metric_bigger tr
                   then best_valid_score tr < fst (valid_epoch E (params t') (batches_of vd))
                   else fst (valid_epoch E (params t') (batches_of vd)) < best_valid_score tr)
               then 0 else cur_step tr + 1) \<and>
            best_valid_score tr' =
              (if (if valid_metric_bigger tr
                   then best_valid_score tr < fst (valid_epoch E (params t') (batches_of vd))
                   else fst (valid_epoch E (params t') (batches_of vd)) < best_valid_score tr)
               then fst (valid_epoch E (params t') (batches_of vd)) else best_valid_score tr)) \<and>
         (if valid_metric_bigger (fst s)
          then best_valid_score (fst s) \<le> best_valid_score (fst (snd (fit_loop E td vd saved es s)))
          else best_valid_score (fst (snd (fit_loop E td vd saved es s))) \<le> best_valid_score (fst s))"
proof -
  obtain tr' d' where
    step: "fit_epoch E td vd saved e (tr, d) =
             (Inr (if stopping_step tr \<le> cur_step tr' then Break else Continue), tr', d')"
    and cur: "cur_step tr' =
       (if (if valid_metric_bigger tr
            then best_valid_score tr < fst (valid_epoch E (params t') (batches_of vd))
            else fst (valid_epoch E (params t') (batches_of vd)) < best_valid_score tr)
        then 0 else cur_step tr + 1)"
    and best: "best_valid_score tr' =
       (if (if valid_metric_bigger tr
            then best_valid_score tr < fst (valid_epoch E (params t') (batches_of vd))
            else fst (valid_epoch E (params t') (batches_of vd)) < best_valid_score tr)
        then fst (valid_epoch E (params t') (batches_of vd)) else best_valid_score tr)"
    using fit_epoch_eval [OF train ev] by blast
  have loop: "fit_loop E td vd saved (e # rest) (tr, d) =
                (if stopping_step tr \<le> cur_step tr' then (Inr (), tr', d')
                 else fit_loop E td vd saved rest (tr', d'))"
    using step by simp
  show ?thesis
    using loop cur best fit_loop_best_mono [of s E td vd saved es] by blast
qed

theorem fit_early_stopping_witness:
  "train_epoch toy_engine (clip_grad_norm (toy_trainer\<lparr>cur_step := 1, best_valid_score := 10\<rparr>))
     [1] (torch (toy_trainer\<lparr>cur_step := 1, best_valid_score := 10\<rparr>)) =
     (Inr (Some (Single (Fin 5))), \<lparr>params = 4, opt_state = 1, grads = 1\<rparr>) \<and>
   0 < eval_step (toy_trainer\<lparr>cur_step := 1, best_valid_score := 10\<rparr>) \<and>
   truthy (Some [()]) \<and>
   (0 + 1) mod eval_step (toy_trainer\<lparr>cur_step := 1, best_valid_score := 10\<rparr>) = 0 \<and>
   (\<exists>tr' d'.
      fit_loop toy_engine [1] (Some [()]) True [0, 1, 2]
        (toy_trainer\<lparr>cur_step := 1, best_valid_score := 10\<rparr>, []) = (Inr (), tr', d') \<and>
      cur_step tr' = 2 \<and> best_valid_score tr' = 10) \<and>
   - 1 \<le> best_valid_score (fst (snd (fit_loop toy_engine [1] (Some [()]) True [0, 1, 2, 3]
                                        (toy_trainer, []))))"
proof -
  let ?tr = "toy_trainer\<lparr>cur_step := 1, best_valid_score := 10\<rparr>"
  have h1: "train_epoch toy_engine (clip_grad_norm ?tr) [1] (torch ?tr) =
              (Inr (Some (Single (Fin 5))), \<lparr>params = 4, opt_state = 1, grads = 1\<rparr>)"
    by (simp add: toy_trainer_fields train_epoch_def train_batch_def toy_engine_def
        accumulate_def check_nan_def combined_loss_def isnan_def)
  have h2: "0 < eval_step ?tr" by (simp add: toy_trainer_fields)
  have h3: "truthy (Some [()])" by (simp add: truthy_def)
  have h4: "(0 + 1) mod eval_step ?tr = 0" by (simp add: toy_trainer_fields)
  have v: "fst (valid_epoch toy_engine (4 :: real) (batches_of (Some [()]))) = 4"
    by (simp add: toy_engine_def)
  note T = fit_early_stopping [OF h1 h2 h3 h4, of True "[1, 2]" "[]" "(toy_trainer, [])" "[0, 1, 2, 3]"]
  from T obtain tr' d' where
    a: "fit_loop toy_engine [1] (Some [()]) True [0, 1, 2] (?tr, []) =
          (if stopping_step ?tr \<le> cur_step tr' then (Inr (), tr', d')
           else fit_loop toy_engine [1] (Some [()]) True [1, 2] (tr', d'))"
    and b: "cur_step tr' =
          (if (if valid_metric_bigger ?tr
               then best_valid_score ?tr < fst (valid_epoch toy_engine (params \<lparr>params = 4 :: real, opt_state = 1 :: nat, grads = 1 :: real\<rparr>) (batches_of (Some [()])))
               else fst (valid_epoch toy_engine (params \<lparr>params = 4 :: real, opt_state = 1 :: nat, grads = 1 :: real\<rparr>) (batches_of (Some [()]))) < best_valid_score ?tr)
           then 0 else cur_step ?tr + 1)"
    and c: "best_valid_score tr' =
          (if (if valid_metric_bigger ?tr
               then best_valid_score ?tr < fst (valid_epoch toy_engine (params \<lparr>params = 4 :: real, opt_state = 1 :: nat, grads = 1 :: real\<rparr>) (batches_of (Some [()])))
               else fst (valid_epoch toy_engine (params \<lparr>params = 4 :: real, opt_state = 1 :: nat, grads = 1 :: real\<rparr>) (batches_of (Some [()]))) < best_valid_score ?tr)
           then fst (valid_epoch toy_engine (params \<lparr>params = 4 :: real, opt_state = 1 :: nat, grads = 1 :: real\<rparr>) (batches_of (Some [()]))) else best_valid_score ?tr)"
    by blast
  have b': "cur_step tr' = 2" using b by (simp add: toy_trainer_fields v)
  have c': "best_valid_score tr' = 10" using c by (simp add: toy_trainer_fields v)
  have a': "fit_loop toy_engine [1] (Some [()]) True [0, 1, 2] (?tr, []) = (Inr (), tr', d')"
    using a b' by (simp add: toy_trainer_fields del: fit_loop.simps)
  have m: "- 1 \<le> best_valid_score (fst (snd (fit_loop toy_engine [1] (Some [()]) True [0, 1, 2, 3]
                                                 (toy_trainer, []))))"
    using T by (simp add: toy_trainer_fields del: fit_loop.simps)
  show ?thesis
    using h1 h2 h3 h4 a' b' c' m by blast
qed

subsection \<open>Fitting without validation data\<close>












subsection \<open>Saving and resuming a checkpoint\<close>

text \<open>
  Claim C4, as the code has it. Saving a checkpoint of epoch \<open>epoch\<close> from the trainer
  \<open>tr\<close> and resuming a trainer \<open>tr2\<close> from the written file never fails; it gives
  \<open>tr2\<close> the saved \<open>cur_step\<close>, \<open>best_valid_score\<close>, model state and optimizer state
  of \<open>tr\<close>, and sets its \<open>start_epoch\<close> to \<open>epoch + 1\<close>, the epoch after the saved one.
  A warning is logged exactly when the two model names differ after lowercasing. When
  the trainer that saved is the one that resumes, the round trip changes nothing but
  \<open>start_epoch\<close>.
\<close>

theorem save_resume_roundtrip:
  "resume_checkpoint (saved_model_file tr) tr2 (save_checkpoint epoch tr d) =
     Inr (tr2\<lparr>start_epoch := epoch + 1,
              cur_step := cur_step tr,
              best_valid_score := best_valid_score tr,
              torch := (torch tr2)\<lparr>params := params (torch tr),
                                    opt_state := opt_state (torch tr)\<rparr>\<rparr>,
          if lower (cfg_model (config tr)) \<noteq> lower (cfg_model (config tr2))
          then [''Architecture configuration given in config file is different from that of checkpoint. This may yield an exception while state_dict is being loaded.'']
          else []) \<and>
   resume_checkpoint (saved_model_file tr) tr (save_checkpoint epoch tr d) =
     Inr (tr\<lparr>start_epoch := epoch + 1\<rparr>, [])"
  by (simp add: resume_checkpoint_def save_checkpoint_def torch_load_def)

text \<open>
  The claim as stated (the saved epoch is restored and the state after resuming equals
  the state at save time) fails: after saving epoch 3 from the example trainer, whose
  \<open>start_epoch\<close> is 0, resuming leaves \<open>start_epoch = 4\<close>, which is neither the saved
  epoch nor the value at save time.
\<close>

theorem save_resume_epoch_counterexample:
  "resume_checkpoint (saved_model_file toy_trainer) toy_trainer (save_checkpoint 3 toy_trainer []) =
     Inr (toy_trainer\<lparr>start_epoch := 4\<rparr>, []) \<and>
   start_epoch (toy_trainer\<lparr>start_epoch := 4\<rparr>) \<noteq> 3 \<and>
   toy_trainer\<lparr>start_epoch := 4\<rparr> \<noteq> toy_trainer"
proof -
  have r: "resume_checkpoint (saved_model_file toy_trainer) toy_trainer
             (save_checkpoint 3 toy_trainer []) = Inr (toy_trainer\<lparr>start_epoch := 4\<rparr>, [])"
    by (simp add: resume_checkpoint_def save_checkpoint_def torch_load_def)
  have "start_epoch (toy_trainer\<lparr>start_epoch := 4\<rparr>) \<noteq> start_epoch toy_trainer"
    by (simp add: toy_trainer_fields)
  then have n: "toy_trainer\<lparr>start_epoch := 4\<rparr> \<noteq> toy_trainer"
    by metis
  show ?thesis using r n by simp
qed

subsection \<open>The constructor of the single-epoch trainer\<close>

text \<open>
  Claim C8. The class docstring of \<^verbatim>\<open>TraditionalTrainer\<close> promises one epoch whatever
  the configuration says. Its constructor, however, calls the base constructor with two
  arguments where three are required, so for every configuration and model it raises a
  TypeError before \<^verbatim>\<open>self.epochs = 1\<close> is reached: no trainer of this class exists on
  which \<open>fit\<close> could run.
\<close>

theorem TraditionalTrainer_init_raises:
  "TraditionalTrainer_init cfg model local_time =
     Inl (TypeError ''__init__() missing 1 required positional argument: item_popularity'')"
  by (simp add: TraditionalTrainer_init_def Trainer_init_def)

text \<open>
  Had the base constructor been given an item popularity, the assignment
  \<^verbatim>\<open>self.epochs = 1\<close> would leave \<open>fit\<close> the single epoch 0 to train.
\<close>

lemma single_epoch_budget:
  assumes "Trainer_init cfg model (Some pop) local_time = Inr tr"
  shows "[start_epoch (tr\<lparr>epochs := 1\<rparr>)..epochs (tr\<lparr>epochs := 1\<rparr>) - 1] = [0]"
  using assms by (auto simp: Trainer_init_def)

subsection \<open>Masking in full-ranking evaluation\<close>

lemma norm_index_less: "norm_index n i = Some r \<Longrightarrow> r < n"
  by (auto simp: norm_index_def split: if_splits)

lemma resolve_all_in_range:
  "resolve_all nrows ncols ix = Some ps \<Longrightarrow> (r, c) \<in> set ps \<Longrightarrow> r < nrows \<and> c < ncols"
  by (induction ix arbitrary: ps)
     (auto split: option.splits dest: norm_index_less)

lemma cells_in_range:
  "cells nrows ncols rows cols = Inr ps \<Longrightarrow> (r, c) \<in> set ps \<Longrightarrow> r < nrows \<and> c < ncols"
  by (auto simp: cells_def split: sum.splits option.splits dest: resolve_all_in_range)

lemma length_put [simp]: "length (put m p v) = length m"
  by (simp add: put_def)

lemma length_row_put [simp]: "length (put m p v ! r) = length (m ! r)"
  by (cases "fst p < length m") (auto simp: put_def nth_list_update list_update_beyond)

lemma nth_put:
  "r < length m \<Longrightarrow> put m p v ! r ! c =
     (if p = (r, c) \<and> c < length (m ! r) then v else m ! r ! c)"
  by (cases p; cases "fst p = r"; cases "snd p = c")
     (auto simp: put_def nth_list_update list_update_beyond)

lemma length_foldl_put [simp]: "length (foldl (\<lambda>a p. put a p v) m ps) = length m"
  by (induction ps arbitrary: m) simp_all

lemma length_row_foldl_put [simp]:
  "length (foldl (\<lambda>a p. put a p v) m ps ! r) = length (m ! r)"
  by (induction ps arbitrary: m) simp_all

lemma nth_foldl_put:
  "r < length m \<Longrightarrow> c < length (m ! r) \<Longrightarrow>
   foldl (\<lambda>a p. put a p v) m ps ! r ! c = (if (r, c) \<in> set ps then v else m ! r ! c)"
proof (induction ps arbitrary: m)
  case Nil
  then show ?case by simp
next
  case (Cons p ps)
  have "foldl (\<lambda>a p. put a p v) (put m p v) ps ! r ! c =
          (if (r, c) \<in> set ps then v else put m p v ! r ! c)"
    using Cons.prems by (intro Cons.IH) simp_all
  then show ?case using Cons.prems by (auto simp: nth_put)
qed

lemma index_put_const:
  assumes "cells (length m) ncols rows cols = Inr ps"
  shows "index_put ncols m rows cols [v] = Inr (foldl (\<lambda>a p. put a p v) m ps)"
proof (cases ps)
  case Nil
  then show ?thesis using assms by (simp add: index_put_def)
next
  case (Cons p qs)
  then show ?thesis using assms by (cases qs) (simp_all add: index_put_def)
qed

lemma view_rows_ok:
  assumes "0 < n" "length pred = k * n"
  shows "view_rows n pred = Inr (map (\<lambda>r. take n (drop (r * n) pred)) [0..<k])"
  using assms by (simp add: view_rows_def)

lemma view_row_bound:
  assumes "(r :: nat) < k"
  shows "r * n + n \<le> k * n"
proof -
  have "Suc r * n \<le> k * n" using assms by (intro mult_le_mono1) simp
  then show ?thesis by (simp add: add.commute)
qed

lemma view_row_length:
  assumes "length pred = k * n" "r < k"
  shows "length (take n (drop (r * n) pred)) = n"
  using assms(1) view_row_bound [OF assms(2), of n] by simp

lemma view_row_nth:
  assumes "length pred = k * n" "r < k" "c < n"
  shows "take n (drop (r * n) pred) ! c = pred ! (r * n + c)"
  using assms view_row_bound [OF assms(2), of n] by simp

text \<open>
  Claim C5. Let the prediction hold \<open>k\<close> rows of \<open>n > 0\<close> scores and let the history
  index name the cells \<open>ps\<close> of a \<open>k\<close> by \<open>n\<close> matrix (none when it is \<^verbatim>\<open>None\<close>). Then
  the masking step returns a \<open>k\<close> by \<open>n\<close> matrix in which the score of row \<open>r\<close> and
  column \<open>c\<close> is negative infinity when \<open>c = 0\<close> or the cell is one of \<open>ps\<close>, and is
  the model's score \<open>pred ! (r * n + c)\<close> otherwise.
\<close>

theorem mask_scores_masks:
  assumes n: "0 < n" and len: "length pred = k * n"
      and hist: "history_cells k n hi = Inr ps"
  shows "\<exists>m. mask_scores n pred hi = Inr m \<and> length m = k \<and>
           (\<forall>r<k. length (m ! r) = n \<and>
              (\<forall>c<n. m ! r ! c =
                 (if c = 0 \<or> (r, c) \<in> set ps then NInf else pred ! (r * n + c))))"
proof -
  define s1 where "s1 = map (\<lambda>row. row[0 := NInf]) (map (\<lambda>r. take n (drop (r * n) pred)) [0..<k])"
  define m where "m = foldl (\<lambda>a p. put a p NInf) s1 ps"
  have l1: "length s1 = k" by (simp add: s1_def)
  have row1: "length (s1 ! r) = n" if "r < k" for r
    using that view_row_length [OF len that] by (simp add: s1_def)
  have val1: "s1 ! r ! c = (if c = 0 then NInf else pred ! (r * n + c))" if "r < k" "c < n" for r c
    using that view_row_nth [OF len that] view_row_length [OF len that(1)]
    by (simp add: s1_def nth_list_update)
  have res: "mask_scores n pred hi = Inr m"
  proof (cases hi)
    case None
    then have "ps = []" using hist by (simp add: history_cells_def)
    then show ?thesis
      using None view_rows_ok [OF n len] by (simp add: mask_scores_def m_def s1_def)
  next
    case (Some h)
    then have "cells (length s1) n (fst h) (snd h) = Inr ps"
      using hist l1 by (simp add: history_cells_def)
    then have "index_put n s1 (fst h) (snd h) [NInf] = Inr m"
      unfolding m_def by (rule index_put_const)
    then show ?thesis
      using Some view_rows_ok [OF n len] by (simp add: mask_scores_def Let_def s1_def)
  qed
  have vals: "m ! r ! c = (if c = 0 \<or> (r, c) \<in> set ps then NInf else pred ! (r * n + c))"
    if "r < k" "c < n" for r c
  proof -
    have "m ! r ! c = (if (r, c) \<in> set ps then NInf else s1 ! r ! c)"
      unfolding m_def using that l1 row1 [OF that(1)] by (intro nth_foldl_put) simp_all
    then show ?thesis using val1 [OF that] by auto
  qed
  have rows: "length (m ! r) = n" if "r < k" for r
    using row1 [OF that] by (simp add: m_def)
  have lm: "length m = k" using l1 by (simp add: m_def)
  show ?thesis
    using res vals rows lm by (intro exI [of _ m]) simp
qed


theorem mask_scores_masks_witness:
  "(0 :: nat) < 5 \<and>
   length [Fin 10, Fin 20, Fin 30, Fin 40, Fin 50] = 1 * 5 \<and>
   history_cells 1 5 (Some ([0, 0], [1, 3])) = Inr [(0, 1), (0, 3)] \<and>
   (\<exists>m. mask_scores 5 [Fin 10, Fin 20, Fin 30, Fin 40, Fin 50] (Some ([0, 0], [1, 3])) = Inr m \<and>
        length m = 1 \<and> length (m ! 0) = 5 \<and>
        m ! 0 ! 0 = NInf \<and> m ! 0 ! 1 = NInf \<and> m ! 0 ! 2 = Fin 30 \<and>
        m ! 0 ! 3 = NInf \<and> m ! 0 ! 4 = Fin 50)"
proof -
  let ?pred = "[Fin 10, Fin 20, Fin 30, Fin 40, Fin 50]"
  have h1: "(0 :: nat) < 5" by simp
  have h2: "length ?pred = 1 * 5" by simp
  have h3: "history_cells 1 5 (Some ([0, 0], [1, 3])) = Inr [(0, 1), (0, 3)]"
    by (simp add: history_cells_def cells_def broadcast_def norm_index_def)
  from mask_scores_masks [OF h1 h2 h3] obtain m where
    r: "mask_scores 5 ?pred (Some ([0, 0], [1, 3])) = Inr m" and l: "length m = 1"
    and v: "\<forall>r<1. length (m ! r) = 5 \<and>
              (\<forall>c<5. m ! r ! c =
                 (if c = 0 \<or> (r, c) \<in> set [(0, 1), (0, 3)] then NInf else ?pred ! (r * 5 + c)))"
    by blast
  from v have row: "length (m ! 0) = 5"
    and c: "\<forall>c<5. m ! 0 ! c =
                 (if c = 0 \<or> (0, c) \<in> set [(0 :: nat, 1), (0, 3)] then NInf else ?pred ! (0 * 5 + c))"
    by blast+
  have c0: "m ! 0 ! 0 = NInf" using c by simp
  have c1: "m ! 0 ! 1 = NInf" using spec [OF c, of 1] by simp
  have c2: "m ! 0 ! 2 = Fin 30" using spec [OF c, of 2] by simp
  have c3: "m ! 0 ! 3 = NInf" using spec [OF c, of 3] by simp
  have c4: "m ! 0 ! 4 = Fin 50" using spec [OF c, of 4] by simp
  show ?thesis
    using h3 r l row c0 c1 c2 c3 c4 by simp
qed

subsection \<open>The swap corrections\<close>

text \<open>
  The example of the specification: for the scores 10, 20, 30, 40 and the single swap
  instruction (row 0, before 1, after 3), column 3 ends with the score 20 of column 1.
\<close>

lemma full_sort_swap_example:
  "full_sort_batch_eval (\<lambda>i. [Fin 10, Fin 20, Fin 30, Fin 40]) 4
     \<lparr>interaction = (), history_index = None,
      swap_row1 = [0], swap_col_after1 = [3], swap_col_before1 = [1],
      swap_row2 = [], swap_col_after2 = [], swap_col_before2 = []\<rparr> =
   Inr ((), [[NInf, Fin 20, Fin 30, Fin 20]])"
  by (simp add: full_sort_batch_eval_def mask_scores_def view_rows_def swap_assign_def
      index_get_def index_put_def cells_def broadcast_def norm_index_def put_def)

text \<open>
  Claim C1. The claim does not hold for two swap sets in general, because the second
  assignment reads through \<open>tmp_scores\<close> the tensor that the first one has already
  written. With the first set (row 0, before 1, after 2) and the second set (row 0,
  before 2, after 3), column 3 receives 20, the score that the first correction has put
  into column 2, and not 30, the score of column 2 before the swaps. With the two sets
  exchanged the result is different, so the outcome depends on the order.
\<close>

theorem full_sort_swap_alias:
  "full_sort_batch_eval (\<lambda>i. [Fin 10, Fin 20, Fin 30, Fin 40]) 4
     \<lparr>interaction = (), history_index = None,
      swap_row1 = [0], swap_col_after1 = [2], swap_col_before1 = [1],
      swap_row2 = [0], swap_col_after2 = [3], swap_col_before2 = [2]\<rparr> =
   Inr ((), [[NInf, Fin 20, Fin 20, Fin 20]]) \<and>
   full_sort_batch_eval (\<lambda>i. [Fin 10, Fin 20, Fin 30, Fin 40]) 4
     \<lparr>interaction = (), history_index = None,
      swap_row1 = [0], swap_col_after1 = [3], swap_col_before1 = [2],
      swap_row2 = [0], swap_col_after2 = [2], swap_col_before2 = [1]\<rparr> =
   Inr ((), [[NInf, Fin 20, Fin 20, Fin 30]])"
  by (simp add: full_sort_batch_eval_def mask_scores_def view_rows_def swap_assign_def
      index_get_def index_put_def cells_def broadcast_def norm_index_def put_def)

subsection \<open>Popularity thresholds and buckets\<close>












text \<open>
  The double-precision cut index is not always the exact quotient: for 122 items and 14
  buckets the seventh index is 60, while \<open>7 * 122 div 14 = 61\<close>.
\<close>

lemma cut_index_rounds_down: "cut_index 7 122 14 = 60 \<and> (7 * 122) div 14 = (61 :: int)"
  by code_simp




subsection \<open>The exported recommendation list\<close>

text \<open>
  Claim C9. For evaluation data of one batch the file holds the lines of its users, best
  item first, with positions from 1. For more than one batch it does not hold the lines of
  all users: the file is reopened for writing, and so emptied, for every batch, and the
  user of a row is looked up by the row's index within its batch. With two batches of one
  user each, the file ends with the two lines of the second batch only, labelled with the
  first user; the lines of the first batch are gone.
\<close>

theorem write_rec_list_keeps_last_batch:
  "write_rec_list toy_scores 3 [2] [''u1'', ''u2''] [''a'', ''b''] [toy_batch 1] =
     Inr (Some (''u1'' @ [CHR 0x09] @ ''a'' @ [CHR 0x09] @ ''1'' @ [CHR 0x0A] @
                ''u1'' @ [CHR 0x09] @ ''b'' @ [CHR 0x09] @ ''2'' @ [CHR 0x0A])) \<and>
   write_rec_list toy_scores 3 [2] [''u1'', ''u2''] [''a'', ''b''] [toy_batch 1, toy_batch 2] =
     Inr (Some (''u1'' @ [CHR 0x09] @ ''b'' @ [CHR 0x09] @ ''1'' @ [CHR 0x0A] @
                ''u1'' @ [CHR 0x09] @ ''a'' @ [CHR 0x09] @ ''2'' @ [CHR 0x0A]))"
  by (simp add: write_rec_list_def full_sort_batch_eval_pop_def mask_scores_def view_rows_def
      toy_scores_def toy_batch_def py_max_def topk_def argsort_desc_def py_get_def
      norm_index_def str_nat.simps)
     code_simp

end
